theory Spec2Isabelle
  imports Complex_Main
begin

section \<open>The SAC agent of \<open>SAC/sac_agent.py\<close>\<close>

text \<open>
  Conventions of the embedding.
  \<^item> Tensor and array elements are \<open>real\<close>: the arithmetic of the source is read as exact
    arithmetic, rounding of 32-bit floats is outside the model.
  \<^item> A tensor of shape \<open>(N,)\<close> or \<open>(N, 1)\<close> is a \<open>vector\<close> (one entry per batch row), a
    tensor of shape \<open>(N, k)\<close> is a \<open>matrix\<close> (a list of rows). The parameter set of a
    network is the list of its parameter tensors, each flattened.
  \<^item> Python integers are \<open>int\<close>.
  \<^item> Every method takes the state it reads and returns the state it leaves; a raised
    exception is an outcome of its own that carries the state at the raise.
\<close>

type_synonym vector = "real list"
type_synonym matrix = "real list list"
type_synonym params = "real list list"

text \<open>The exceptions of the model: Python's \<open>AttributeError\<close>, \<open>ValueError\<close> and
  \<open>ZeroDivisionError\<close>; the spec's \<open>InsufficientDataError\<close> of the replay buffer;
  \<open>ShapeMismatch\<close> for the error torch raises on tensors whose sizes do not fit;
  \<open>NoSuchDirectory\<close> and \<open>NoSuchFile\<close> for the errors of \<open>torch.save\<close> and
  \<open>torch.load\<close> on a path that does not exist.\<close>

datatype error =
    AttributeError
  | InsufficientDataError
  | ValueError
  | ZeroDivisionError
  | ShapeMismatch
  | NoSuchDirectory
  | NoSuchFile

datatype ('a, 's) outcome = Returned 'a 's | Raised error 's

subsection \<open>Module constants\<close>

record constants =
  GAMMMA :: real
  TAU :: real
  INITIAL_RANDOM_STEPS :: int
  POLICY_UPDATE_FREQUENCE :: int
  BUFFER_SIZE :: int
  BATCH_SIZE :: int
  LR_A :: real
  LR_Q :: real

text \<open>The values bound at module level (lines 14 to 23). The methods read them from the
  module namespace when they run, so they are an argument of every method that uses one.\<close>

definition module_constants :: constants where
  "module_constants =
     \<lparr>GAMMMA = 995 / 1000, TAU = 5 / 1000, INITIAL_RANDOM_STEPS = 100,
      POLICY_UPDATE_FREQUENCE = 1, BUFFER_SIZE = 1000000, BATCH_SIZE = 256,
      LR_A = 3 / 1000, LR_Q = 3 / 1000\<rparr>"

subsection \<open>Random generators\<close>

text \<open>numpy's global generator: an arbitrary infinite sequence of raw draws and a cursor
  into it. Nothing is assumed of the sequence.\<close>

record np_rng =
  rng_seq :: "nat \<Rightarrow> nat"
  rng_pos :: nat

text \<open>The ambient state of the process that the agent's methods touch: numpy's generator
  and torch's generator (of an abstract type \<open>'g\<close>, only the networks read it).\<close>

record 'g world =
  np_random :: np_rng
  torch_random :: 'g

subsection \<open>The replay buffer\<close>

record transition =
  t_state :: vector
  t_action :: vector
  t_reward :: real
  t_new_state :: vector
  t_done :: bool

text \<open>Modelled from the spec: the class \<open>ReplayBuffer\<close> of \<open>SAC/buffer.py\<close>, which is
  not among the source files. Spec 3 and 4.1: pre-allocated arrays for each field,
  capacity C, a write cursor that wraps, a size counter that saturates at C.\<close>

record ReplayBuffer =
  obs_buf :: "nat \<Rightarrow> vector"
  next_obs_buf :: "nat \<Rightarrow> vector"
  acts_buf :: "nat \<Rightarrow> vector"
  rews_buf :: "nat \<Rightarrow> real"
  done_buf :: "nat \<Rightarrow> real"
  max_size :: nat
  batch_size :: nat
  ptr :: nat
  cur_size :: nat

text \<open>Modelled from the spec: the constructor \<open>ReplayBuffer(obs_dim, act_dim, size,
  batch_size)\<close>, called at line 31; the arrays start zeroed and the buffer empty.\<close>

definition ReplayBuffer_init :: "int \<Rightarrow> int \<Rightarrow> int \<Rightarrow> int \<Rightarrow> ReplayBuffer" where
  "ReplayBuffer_init obs_dim act_dim sz bsz =
     \<lparr>obs_buf = (\<lambda>_. replicate (nat obs_dim) 0),
      next_obs_buf = (\<lambda>_. replicate (nat obs_dim) 0),
      acts_buf = (\<lambda>_. replicate (nat act_dim) 0),
      rews_buf = (\<lambda>_. 0),
      done_buf = (\<lambda>_. 0),
      max_size = nat sz,
      batch_size = nat bsz,
      ptr = 0,
      cur_size = 0\<rparr>"

text \<open>Modelled from the spec: \<open>store(s, a, r, s', done)\<close> writes at the cursor, advances
  the cursor circularly and increments the size up to the capacity; it has no failure
  mode. The capacity is positive in every buffer the agent builds.\<close>

definition store :: "ReplayBuffer \<Rightarrow> vector \<Rightarrow> vector \<Rightarrow> real \<Rightarrow> vector \<Rightarrow> bool \<Rightarrow> ReplayBuffer" where
  "store b s a r s' d =
     b\<lparr>obs_buf := (obs_buf b)(ptr b := s),
       next_obs_buf := (next_obs_buf b)(ptr b := s'),
       acts_buf := (acts_buf b)(ptr b := a),
       rews_buf := (rews_buf b)(ptr b := r),
       done_buf := (done_buf b)(ptr b := of_bool d),
       ptr := (ptr b + 1) mod max_size b,
       cur_size := min (cur_size b + 1) (max_size b)\<rparr>"

text \<open>Modelled from the spec: \<open>len()\<close> returns the current size.\<close>

definition len :: "ReplayBuffer \<Rightarrow> int" where
  "len b = int (cur_size b)"

text \<open>The dictionary that \<open>sample_batch\<close> returns, one field per key.\<close>

record samples =
  k_obs :: matrix
  k_next_obs :: matrix
  k_acts :: matrix
  k_rews :: vector
  k_done :: vector

text \<open>Modelled from the spec: \<open>sample_batch\<close> fails with \<open>InsufficientDataError\<close> when
  the size is below the batch size; otherwise it draws batch-size indices into
  \<open>[0, size)\<close>, with replacement, and gathers each field at them. The source calls it
  without an argument: the batch size is the one given to the constructor.\<close>

definition draw_indices :: "np_rng \<Rightarrow> nat \<Rightarrow> nat \<Rightarrow> nat list \<times> np_rng" where
  "draw_indices r n k =
     (map (\<lambda>j. rng_seq r (rng_pos r + j) mod n) [0..<k], r\<lparr>rng_pos := rng_pos r + k\<rparr>)"

definition gather :: "ReplayBuffer \<Rightarrow> nat list \<Rightarrow> samples" where
  "gather b idxs =
     \<lparr>k_obs = map (obs_buf b) idxs,
      k_next_obs = map (next_obs_buf b) idxs,
      k_acts = map (acts_buf b) idxs,
      k_rews = map (rews_buf b) idxs,
      k_done = map (done_buf b) idxs\<rparr>"

definition sample_batch :: "ReplayBuffer \<Rightarrow> np_rng \<Rightarrow> (samples, np_rng) outcome" where
  "sample_batch b r =
     (if cur_size b < batch_size b then Raised InsufficientDataError r
      else
        let (idxs, r') = draw_indices r (cur_size b) (batch_size b) in
        Returned (gather b idxs) r')"

subsection \<open>Networks and optimizers\<close>

text \<open>The classes \<open>Actor\<close>, \<open>CriticQ\<close> and \<open>CriticV\<close> of \<open>SAC/actor_critic.py\<close> are
  not among the source files, and \<open>optim.Adam\<close> is torch's. They are parameters of the
  model, and every theorem holds for all of them.
  \<^item> A constructor draws the initial parameters from torch's generator.
  \<^item> The actor is called on a batch of states in \<open>update_model\<close> and on one state in
    \<open>step\<close>; it reads torch's generator for its sampling noise. Run again from the same
    generator state it draws the same noise, which is how a loss is a function of the
    actor's parameters.
  \<^item> \<open>zero_grad(); loss.backward(); step()\<close> of one optimizer is \<open>Adam_step\<close>, given the
    optimizer's state, the loss as a function of the optimizer's own parameters, and
    their current value. Each \<open>zero_grad\<close> of the source comes right before the
    \<open>backward\<close> of the loss of the same optimizer, and its \<open>step\<close> right after, so a
    step sees the gradient of that one loss. What the source detaches is a constant of
    the loss function.\<close>

record ('g, 'o) torch_nn =
  Actor_new :: "int \<Rightarrow> int \<Rightarrow> 'g \<Rightarrow> params \<times> 'g"
  CriticV_new :: "int \<Rightarrow> 'g \<Rightarrow> params \<times> 'g"
  CriticQ_new :: "int \<Rightarrow> 'g \<Rightarrow> params \<times> 'g"
  Actor_forward :: "params \<Rightarrow> 'g \<Rightarrow> matrix \<Rightarrow> (matrix \<times> vector) \<times> 'g"
  Actor_forward1 :: "params \<Rightarrow> 'g \<Rightarrow> vector \<Rightarrow> (vector \<times> vector) \<times> 'g"
  CriticQ_forward :: "params \<Rightarrow> matrix \<Rightarrow> matrix \<Rightarrow> vector"
  CriticV_forward :: "params \<Rightarrow> matrix \<Rightarrow> vector"
  Adam_new :: "params \<Rightarrow> real \<Rightarrow> 'o"
  Adam_new1 :: "real \<Rightarrow> real \<Rightarrow> 'o"
  Adam_step :: "'o \<Rightarrow> (params \<Rightarrow> real) \<Rightarrow> params \<Rightarrow> params \<times> 'o"
  Adam_step1 :: "'o \<Rightarrow> (real \<Rightarrow> real) \<Rightarrow> real \<Rightarrow> real \<times> 'o"

subsection \<open>The agent\<close>

text \<open>The attributes of a \<open>SAC\<close> object. \<open>log_alpha\<close> is a tensor of one element.
  \<open>transition\<close> starts as \<open>[[]]\<close> (here \<open>None\<close>) and holds the last stored transition
  afterwards. The device is left out: it changes where tensors live, not their values.\<close>

record 'o SAC =
  statedim :: int
  actiondim :: int
  memory :: ReplayBuffer
  target_alpha :: int
  log_alpha :: real
  alpha_optimizer :: 'o
  actor :: params
  vf :: params
  vf_target :: params
  qf1 :: params
  qf2 :: params
  actor_optimizer :: 'o
  vf_optimizer :: 'o
  qf1_optimizer :: 'o
  qf2_optimizer :: 'o
  transition :: "transition option"
  total_step :: int
  is_test :: bool

text \<open>\<open>np.prod((x,)).item()\<close> for a Python integer \<open>x\<close>, line 35. numpy holds a
  one-element tuple in a 64-bit integer array when \<open>x\<close> fits (signed, or unsigned from
  \<open>2^63\<close> up); the product of the one element is \<open>x\<close>, and \<open>.item()\<close> makes it a Python
  integer again. Beyond 64 bits the array holds Python objects, \<open>np.prod\<close> returns a
  Python \<open>int\<close>, and \<open>.item()\<close> raises \<open>AttributeError\<close>.\<close>

definition np_prod_item :: "int \<Rightarrow> error + int" where
  "np_prod_item x = (if x < - (2 ^ 63) \<or> 2 ^ 64 \<le> x then Inl AttributeError else Inr x)"

text \<open>\<open>load_state_dict\<close>: the entries of the given state dict are copied into the
  network's parameters; torch raises an error when the two do not have the same
  entries of the same sizes.\<close>

definition same_shape :: "params \<Rightarrow> params \<Rightarrow> bool" where
  "same_shape p q = (map length p = map length q)"

definition load_state_dict :: "params \<Rightarrow> params \<Rightarrow> error + params" where
  "load_state_dict own sd = (if same_shape own sd then Inr sd else Inl ShapeMismatch)"

text \<open>\<open>__init__\<close>, lines 27 to 62 (the two prints left out).\<close>

definition SAC_init ::
  "constants \<Rightarrow> ('g, 'o) torch_nn \<Rightarrow> 'g world \<Rightarrow> int \<Rightarrow> int \<Rightarrow> ('o SAC, 'g world) outcome"
where
  "SAC_init c nn w action_dim state_dim =
     (let mem = ReplayBuffer_init state_dim action_dim (BUFFER_SIZE c) (BATCH_SIZE c) in
      case np_prod_item action_dim of
        Inl e \<Rightarrow> Raised e w
      | Inr p \<Rightarrow>
          let (actor0, g1) = Actor_new nn state_dim action_dim (torch_random w);
              (vf0, g2) = CriticV_new nn state_dim g1;
              (vft0, g3) = CriticV_new nn state_dim g2
          in case load_state_dict vft0 vf0 of
               Inl e \<Rightarrow> Raised e (w\<lparr>torch_random := g3\<rparr>)
             | Inr vft \<Rightarrow>
                 let (q1, g4) = CriticQ_new nn (state_dim + action_dim) g3;
                     (q2, g5) = CriticQ_new nn (state_dim + action_dim) g4
                 in Returned
                        \<lparr>statedim = state_dim,
                         actiondim = action_dim,
                         memory = mem,
                         target_alpha = - p,
                         log_alpha = 0,
                         alpha_optimizer = Adam_new1 nn 0 (3 / 10000),
                         actor = actor0,
                         vf = vf0,
                         vf_target = vft,
                         qf1 = q1,
                         qf2 = q2,
                         actor_optimizer = Adam_new nn actor0 (LR_A c),
                         vf_optimizer = Adam_new nn vf0 (LR_Q c),
                         qf1_optimizer = Adam_new nn q1 (LR_Q c),
                         qf2_optimizer = Adam_new nn q2 (LR_Q c),
                         transition = None,
                         total_step = 0,
                         is_test = False\<rparr>
                      (w\<lparr>torch_random := g5\<rparr>))"

text \<open>\<open>normalizeState\<close>, lines 164 and 165.\<close>

definition normalizeState :: "'o SAC \<Rightarrow> 'a \<Rightarrow> 'a" where
  "normalizeState self s_t = s_t"

subsection \<open>Action selection\<close>

text \<open>\<open>np.clip(x, lo, hi)\<close> on one element.\<close>

definition clip :: "real \<Rightarrow> real \<Rightarrow> real \<Rightarrow> real" where
  "clip x lo hi = min (max x lo) hi"

text \<open>\<open>step\<close>, lines 64 to 72. The actor's action is appended to an empty list, the
  list is made an array (one row), clipped, and returned by \<open>tolist()\<close>: a list that
  holds one list of floats.\<close>

definition step :: "('g, 'o) torch_nn \<Rightarrow> 'g world \<Rightarrow> 'o SAC \<Rightarrow> vector \<Rightarrow> (real list list, 'g world \<times> 'o SAC) outcome" where
  "step nn w self state =
     (let ((action, log_prob), g) = Actor_forward1 nn (actor self) (torch_random w) state;
          selected_action = [] @ [action];
          selected_action = map (map (\<lambda>x. clip x (- 1) 1)) selected_action
      in Returned selected_action
           (w\<lparr>torch_random := g\<rparr>, self\<lparr>total_step := total_step self + 1\<rparr>))"

subsection \<open>Storing a transition\<close>

text \<open>\<open>store_transition\<close>, lines 74 to 77. The parameters come in the order
  \<open>(state, new_state, reward, action, done)\<close>; the list kept in \<open>self.transition\<close>
  and unpacked into \<open>memory.store\<close> is \<open>[state, action, reward, new_state, done]\<close>.\<close>

definition store_transition :: "'o SAC \<Rightarrow> vector \<Rightarrow> vector \<Rightarrow> real \<Rightarrow> vector \<Rightarrow> bool \<Rightarrow> 'o SAC" where
  "store_transition self state new_state reward action done =
     (if \<not> is_test self then
        let self = self\<lparr>transition :=
                     Some \<lparr>t_state = state, t_action = action, t_reward = reward,
                           t_new_state = new_state, t_done = done\<rparr>\<rparr>
        in case transition self of
             Some t \<Rightarrow>
               self\<lparr>memory := store (memory self) (t_state t) (t_action t) (t_reward t)
                                  (t_new_state t) (t_done t)\<rparr>
           | None \<Rightarrow> self
      else self)"

subsection \<open>The target network\<close>

text \<open>One parameter tensor of line 162: \<open>TAU * l_param.data + (1.0 - TAU) *
  t_param.data\<close>, elementwise. The two tensors belong to two networks of the same class
  and have the same size; sizes that differ are an error of the model (broadcasting
  between parameter tensors is outside it).\<close>

definition blend :: "real \<Rightarrow> vector \<Rightarrow> vector \<Rightarrow> vector" where
  "blend tau t_param l_param = map2 (\<lambda>t l. tau * l + (1 - tau) * t) t_param l_param"

text \<open>The loop of lines 159 to 162 over
  \<open>zip(self.vf_target.parameters(), self.vf.parameters())\<close>. \<open>copy_\<close> writes into the
  target tensor in place: the tensors of the pairs already visited are updated, also
  when a later pair raises, and target tensors beyond the shorter list stay as they are.\<close>

fun soft_update_loop :: "real \<Rightarrow> params \<Rightarrow> params \<Rightarrow> (unit, params) outcome" where
  "soft_update_loop tau (t # ts) (l # ls) =
     (if length t = length l then
        (case soft_update_loop tau ts ls of
           Returned u ts' \<Rightarrow> Returned u (blend tau t l # ts')
         | Raised e ts' \<Rightarrow> Raised e (blend tau t l # ts'))
      else Raised ShapeMismatch (t # ts))"
| "soft_update_loop tau ts [] = Returned () ts"
| "soft_update_loop tau [] ls = Returned () []"

text \<open>\<open>_target_soft_update\<close>, lines 158 to 162.\<close>

definition target_soft_update :: "constants \<Rightarrow> 'o SAC \<Rightarrow> (unit, 'o SAC) outcome" where
  "target_soft_update c self =
     (case soft_update_loop (TAU c) (vf_target self) (vf self) of
        Returned u t \<Rightarrow> Returned u (self\<lparr>vf_target := t\<rparr>)
      | Raised e t \<Rightarrow> Raised e (self\<lparr>vf_target := t\<rparr>))"

subsection \<open>The update step\<close>

text \<open>\<open>tensor.mean()\<close> over all elements. Of an empty tensor torch gives \<open>nan\<close>; the
  model gives \<open>0\<close> there, and the theorems on the update are about batches that are
  not empty.\<close>

definition mean :: "vector \<Rightarrow> real" where
  "mean xs = sum_list xs / real (length xs)"

text \<open>\<open>F.mse_loss(input, target)\<close> with the default reduction, on two tensors of the
  same shape \<open>(N, 1)\<close>.\<close>

definition mse_loss :: "vector \<Rightarrow> vector \<Rightarrow> real" where
  "mse_loss inp tgt = mean (map2 (\<lambda>x y. (x - y)\<^sup>2) inp tgt)"

text \<open>\<open>a.reshape(-1, k)\<close> on a two-dimensional array: numpy raises \<open>ValueError\<close>
  unless \<open>k\<close> is positive and divides the number of elements, and otherwise cuts the
  elements, in row order, into rows of \<open>k\<close>. (\<open>reshape(-1, 1)\<close> of a one-dimensional
  array, lines 90 and 91, never fails and leaves the \<open>vector\<close> as it is.)\<close>

fun rows_of :: "nat \<Rightarrow> real list \<Rightarrow> real list list" where
  "rows_of k xs = (if k = 0 \<or> xs = [] then [] else take k xs # rows_of k (drop k xs))"

declare rows_of.simps [simp del]

definition reshape_rows :: "int \<Rightarrow> matrix \<Rightarrow> error + matrix" where
  "reshape_rows k m =
     (if k \<le> 0 \<or> length (concat m) mod nat k \<noteq> 0 then Inl ValueError
      else Inr (rows_of (nat k) (concat m)))"

text \<open>The four values that \<open>update_model\<close> returns:
  \<open>(actor_loss, qf_loss, v_loss, alpha_loss)\<close>.\<close>

type_synonym losses = "real \<times> real \<times> real \<times> real"

text \<open>Lines 92 to 142 of \<open>update_model\<close>, on the tensors of the sampled batch. A loss
  that is stepped on is written as a function of the parameters its optimizer owns,
  next to its value; torch's generator state \<open>g0\<close> is the one the actor was run from at
  line 92. Line 117 raises \<open>ZeroDivisionError\<close> when the modulus is zero.\<close>

definition update_on_batch ::
  "constants \<Rightarrow> ('g, 'o) torch_nn \<Rightarrow> 'g world \<Rightarrow> 'o SAC \<Rightarrow>
     matrix \<Rightarrow> matrix \<Rightarrow> matrix \<Rightarrow> vector \<Rightarrow> vector \<Rightarrow> (losses, 'g world \<times> 'o SAC) outcome"
where
  "update_on_batch c nn w self state next_state action reward done =
     (let g0 = torch_random w;
          ((new_action, log_prob), g) = Actor_forward nn (actor self) g0 state;
          w = w\<lparr>torch_random := g\<rparr>;

          alpha_loss_fn = (\<lambda>la. mean (map (\<lambda>lp. - exp la * (lp + of_int (target_alpha self))) log_prob));
          alpha_loss = alpha_loss_fn (log_alpha self);
          (la, ao) = Adam_step1 nn (alpha_optimizer self) alpha_loss_fn (log_alpha self);
          self = self\<lparr>log_alpha := la, alpha_optimizer := ao\<rparr>;

          alpha = exp (log_alpha self);

          mask = map (\<lambda>d. 1 - d) done;
          q1_pred = CriticQ_forward nn (qf1 self) state action;
          q2_pred = CriticQ_forward nn (qf2 self) state action;
          vf_tgt = CriticV_forward nn (vf_target self) next_state;
          q_target = map2 (+) reward (map2 (*) (map (\<lambda>v. GAMMMA c * v) vf_tgt) mask);
          qf1_loss_fn = (\<lambda>p. mse_loss q_target (CriticQ_forward nn p state action));
          qf1_loss = mse_loss q_target q1_pred;
          qf2_loss_fn = (\<lambda>p. mse_loss q_target (CriticQ_forward nn p state action));
          qf2_loss = mse_loss q_target q2_pred;

          v_pred = CriticV_forward nn (vf self) state;
          q_pred = map2 min (CriticQ_forward nn (qf1 self) state new_action)
                            (CriticQ_forward nn (qf2 self) state new_action);
          v_target = map2 (-) q_pred (map (\<lambda>lp. alpha * lp) log_prob);
          v_loss_fn = (\<lambda>p. mse_loss (CriticV_forward nn p state) v_target);
          v_loss = mse_loss v_pred v_target
      in
      if POLICY_UPDATE_FREQUENCE c = 0 then Raised ZeroDivisionError (w, self)
      else
        let policy_branch =
              (if total_step self mod POLICY_UPDATE_FREQUENCE c = 0 then
                 let actor_loss_fn =
                       (\<lambda>p. let (new_action, log_prob) = fst (Actor_forward nn p g0 state);
                                 q_pred = map2 min (CriticQ_forward nn (qf1 self) state new_action)
                                                   (CriticQ_forward nn (qf2 self) state new_action);
                                 advantage = map2 (-) q_pred v_pred
                             in mean (map2 (-) (map (\<lambda>lp. alpha * lp) log_prob) advantage));
                     advantage = map2 (-) q_pred v_pred;
                     actor_loss = mean (map2 (-) (map (\<lambda>lp. alpha * lp) log_prob) advantage);
                     (a, ao) = Adam_step nn (actor_optimizer self) actor_loss_fn (actor self);
                     self = self\<lparr>actor := a, actor_optimizer := ao\<rparr>
                 in case target_soft_update c self of
                      Returned u self \<Rightarrow> Returned actor_loss self
                    | Raised e self \<Rightarrow> Raised e self
               else Returned 0 self)
        in case policy_branch of
             Raised e self \<Rightarrow> Raised e (w, self)
           | Returned actor_loss self \<Rightarrow>
               let (q1, q1o) = Adam_step nn (qf1_optimizer self) qf1_loss_fn (qf1 self);
                   self = self\<lparr>qf1 := q1, qf1_optimizer := q1o\<rparr>;
                   (q2, q2o) = Adam_step nn (qf2_optimizer self) qf2_loss_fn (qf2 self);
                   self = self\<lparr>qf2 := q2, qf2_optimizer := q2o\<rparr>;

                   qf_loss = qf1_loss + qf2_loss;

                   (v, vo) = Adam_step nn (vf_optimizer self) v_loss_fn (vf self);
                   self = self\<lparr>vf := v, vf_optimizer := vo\<rparr>
               in Returned (actor_loss, qf_loss, v_loss, alpha_loss) (w, self))"

text \<open>\<open>update_model\<close>, lines 83 to 142: the batch is sampled and made tensors (lines 86
  to 91), then the update runs on them.\<close>

definition update_model ::
  "constants \<Rightarrow> ('g, 'o) torch_nn \<Rightarrow> 'g world \<Rightarrow> 'o SAC \<Rightarrow> (losses, 'g world \<times> 'o SAC) outcome"
where
  "update_model c nn w self =
     (case sample_batch (memory self) (np_random w) of
        Raised e r \<Rightarrow> Raised e (w\<lparr>np_random := r\<rparr>, self)
      | Returned smp r \<Rightarrow>
          let w = w\<lparr>np_random := r\<rparr>;
              state = k_obs smp;
              next_state = k_next_obs smp
          in case reshape_rows (actiondim self) (k_acts smp) of
               Inl e \<Rightarrow> Raised e (w, self)
             | Inr action \<Rightarrow>
                 let reward = k_rews smp;
                     done = k_done smp
                 in update_on_batch c nn w self state next_state action reward done)"

text \<open>\<open>train\<close>, lines 79 to 81. The four losses are dropped.\<close>

definition train :: "constants \<Rightarrow> ('g, 'o) torch_nn \<Rightarrow> 'g world \<Rightarrow> 'o SAC \<Rightarrow> (unit, 'g world \<times> 'o SAC) outcome" where
  "train c nn w self =
     (if len (memory self) > BATCH_SIZE c \<and> total_step self > INITIAL_RANDOM_STEPS c then
        (case update_model c nn w self of
           Returned l s \<Rightarrow> Returned () s
         | Raised e s \<Rightarrow> Raised e s)
      else Returned () (w, self))"

subsection \<open>Saving and loading\<close>

text \<open>The files under the working directory: the directories that exist, and the state
  dict held by each file that \<open>torch.save\<close> wrote. \<open>torch.save\<close> raises when the
  directory of the path does not exist, \<open>torch.load\<close> when the file does not; what is
  loaded is what was saved (\<open>map_location\<close> moves it to the CPU and leaves the values).\<close>

record filesystem =
  directories :: "string set"
  files :: "string \<rightharpoonup> params"

definition dirname :: "string \<Rightarrow> string" where
  "dirname p = rev (drop 1 (dropWhile (\<lambda>ch. ch \<noteq> CHR ''/'') (rev p)))"

definition torch_save :: "params \<Rightarrow> string \<Rightarrow> filesystem \<Rightarrow> (unit, filesystem) outcome" where
  "torch_save sd p fs =
     (if dirname p \<in> directories fs then Returned () (fs\<lparr>files := (files fs)(p \<mapsto> sd)\<rparr>)
      else Raised NoSuchDirectory fs)"

definition torch_load :: "string \<Rightarrow> filesystem \<Rightarrow> error + params" where
  "torch_load p fs = (case files fs p of None \<Rightarrow> Inl NoSuchFile | Some sd \<Rightarrow> Inr sd)"

text \<open>\<open>save_models\<close>, lines 144 to 148.\<close>

definition save_models :: "'o SAC \<Rightarrow> filesystem \<Rightarrow> (unit, filesystem) outcome" where
  "save_models self fs =
     (case torch_save (actor self) ''results/actor.pt'' fs of
        Raised e fs \<Rightarrow> Raised e fs
      | Returned u fs \<Rightarrow>
     (case torch_save (qf1 self) ''results/qf1.pt'' fs of
        Raised e fs \<Rightarrow> Raised e fs
      | Returned u fs \<Rightarrow>
     (case torch_save (qf2 self) ''results/qf2.pt'' fs of
        Raised e fs \<Rightarrow> Raised e fs
      | Returned u fs \<Rightarrow>
        torch_save (vf self) ''results/vf.pt'' fs)))"

text \<open>One line of \<open>load_models\<close>: \<open>net.load_state_dict(torch.load(path, ...))\<close>.\<close>

definition load_into :: "params \<Rightarrow> string \<Rightarrow> filesystem \<Rightarrow> error + params" where
  "load_into own p fs =
     (case torch_load p fs of Inl e \<Rightarrow> Inl e | Inr sd \<Rightarrow> load_state_dict own sd)"

text \<open>\<open>load_models\<close>, lines 150 to 156. A network loaded before a later line raises
  keeps what it loaded.\<close>

definition load_models :: "'o SAC \<Rightarrow> filesystem \<Rightarrow> (unit, 'o SAC) outcome" where
  "load_models self fs =
     (case load_into (actor self) ''results/actor.pt'' fs of
        Inl e \<Rightarrow> Raised e self
      | Inr p \<Rightarrow> let self = self\<lparr>actor := p\<rparr> in
     (case load_into (qf1 self) ''results/qf1.pt'' fs of
        Inl e \<Rightarrow> Raised e self
      | Inr p \<Rightarrow> let self = self\<lparr>qf1 := p\<rparr> in
     (case load_into (qf2 self) ''results/qf2.pt'' fs of
        Inl e \<Rightarrow> Raised e self
      | Inr p \<Rightarrow> let self = self\<lparr>qf2 := p\<rparr> in
     (case load_into (vf self) ''results/vf.pt'' fs of
        Inl e \<Rightarrow> Raised e self
      | Inr p \<Rightarrow> Returned () (self\<lparr>vf := p\<rparr>)))))"

subsection \<open>The update step in the spec's words\<close>

text \<open>Section 4.4 of the spec, formula by formula; each is a function of the batch
  tensors, one row of the batch at a time. They are compared below with what
  \<open>update_model\<close> computes.\<close>

definition spec_alpha_loss :: "real \<Rightarrow> real \<Rightarrow> vector \<Rightarrow> real" where
  "spec_alpha_loss la target_entropy log_prob =
     mean (map (\<lambda>lp. - exp la * (lp + target_entropy)) log_prob)"

definition spec_q_target :: "real \<Rightarrow> vector \<Rightarrow> vector \<Rightarrow> vector \<Rightarrow> vector" where
  "spec_q_target gamma reward v_target_next done =
     map (\<lambda>(r, v, d). r + gamma * v * (1 - d)) (zip reward (zip v_target_next done))"

definition spec_mse :: "vector \<Rightarrow> vector \<Rightarrow> real" where
  "spec_mse prediction target = mean (map (\<lambda>(p, t). (p - t)\<^sup>2) (zip prediction target))"

definition spec_q_pred :: "vector \<Rightarrow> vector \<Rightarrow> vector" where
  "spec_q_pred q1 q2 = map (\<lambda>(a, b). min a b) (zip q1 q2)"

definition spec_v_target :: "vector \<Rightarrow> real \<Rightarrow> vector \<Rightarrow> vector" where
  "spec_v_target q_pred alpha log_prob = map (\<lambda>(q, lp). q - alpha * lp) (zip q_pred log_prob)"

definition spec_actor_loss :: "real \<Rightarrow> vector \<Rightarrow> vector \<Rightarrow> vector \<Rightarrow> real" where
  "spec_actor_loss alpha log_prob q_pred v =
     mean (map (\<lambda>(lp, q, v). alpha * lp - (q - v)) (zip log_prob (zip q_pred v)))"

definition spec_soft_update :: "real \<Rightarrow> params \<Rightarrow> params \<Rightarrow> params" where
  "spec_soft_update tau target online =
     map (\<lambda>(t, l). map (\<lambda>(te, le). tau * le + (1 - tau) * te) (zip t l)) (zip target online)"

text \<open>What \<open>update_model\<close> needs in order to return: the buffer holds a batch, of at
  least one transition; its stored actions have \<open>actiondim\<close> entries (line 89 reshapes them); the modulus of
  line 117 is not zero; the value network and its target have the same shapes.\<close>

definition update_ready :: "constants \<Rightarrow> 'o SAC \<Rightarrow> bool" where
  "update_ready c self =
     (0 < batch_size (memory self) \<and>
      batch_size (memory self) \<le> cur_size (memory self) \<and>
      1 \<le> actiondim self \<and>
      list_all (\<lambda>i. length (acts_buf (memory self) i) = nat (actiondim self))
        [0..<cur_size (memory self)] \<and>
      POLICY_UPDATE_FREQUENCE c \<noteq> 0 \<and>
      same_shape (vf_target self) (vf self))"

subsection \<open>A small instance\<close>

text \<open>Networks, optimizers and an agent small enough to evaluate by hand: the actor
  answers with its flattened parameters, the critics with sums, an optimizer step
  subtracts the loss from every parameter and counts the step.\<close>

definition toy_nn :: "(nat, nat) torch_nn" where
  "toy_nn =
     \<lparr>Actor_new = (\<lambda>s a g. ([replicate (nat a) 2], g + 1)),
      CriticV_new = (\<lambda>s g. ([replicate (nat s) 1], g + 1)),
      CriticQ_new = (\<lambda>d g. ([replicate (nat d) 1], g + 1)),
      Actor_forward = (\<lambda>p g states. ((map (\<lambda>s. concat p) states, map (\<lambda>s. real g) states), g + 1)),
      Actor_forward1 = (\<lambda>p g s. ((concat p, [real g]), g + 1)),
      CriticQ_forward = (\<lambda>p states actions. map2 (\<lambda>s a. sum_list (concat p) + sum_list s + sum_list a) states actions),
      CriticV_forward = (\<lambda>p states. map (\<lambda>s. sum_list (concat p) + sum_list s) states),
      Adam_new = (\<lambda>p lr. 0),
      Adam_new1 = (\<lambda>x lr. 0),
      Adam_step = (\<lambda>opt loss p. (map (map (\<lambda>x. x - loss p)) p, opt + 1)),
      Adam_step1 = (\<lambda>opt loss x. (x - loss x, opt + 1))\<rparr>"

definition toy_world :: "nat world" where
  "toy_world = \<lparr>np_random = \<lparr>rng_seq = (\<lambda>n. n), rng_pos = 0\<rparr>, torch_random = 0\<rparr>"

definition toy_memory :: ReplayBuffer where
  "toy_memory =
     store (store (ReplayBuffer_init 2 1 3 1) [1, 2] [1 / 2] 1 [3, 4] False)
       [3, 4] [- (1 / 2)] 2 [5, 6] True"

definition toy_agent :: "nat SAC" where
  "toy_agent =
     \<lparr>statedim = 2, actiondim = 1, memory = toy_memory, target_alpha = - 1,
      log_alpha = 0, alpha_optimizer = 0,
      actor = [[2]], vf = [[1, 1]], vf_target = [[0, 2]], qf1 = [[1, 1, 1]], qf2 = [[1, 0, 1]],
      actor_optimizer = 0, vf_optimizer = 0, qf1_optimizer = 0, qf2_optimizer = 0,
      transition = None, total_step = 1, is_test = False\<rparr>"

text \<open>The same agent with three action dimensions.\<close>

definition toy_agent3 :: "nat SAC" where
  "toy_agent3 = toy_agent\<lparr>actiondim := 3, actor := [[2, - 3, 1 / 2]]\<rparr>"

text \<open>An agent of the same dimensions with other parameters, to load into.\<close>

definition toy_fresh :: "nat SAC" where
  "toy_fresh =
     toy_agent\<lparr>actor := [[0]], vf := [[0, 0]], vf_target := [[0, 0]], qf1 := [[0, 0, 0]],
       qf2 := [[0, 0, 0]], total_step := 0\<rparr>"

definition toy_constants :: constants where
  "toy_constants = module_constants\<lparr>INITIAL_RANDOM_STEPS := 0, BATCH_SIZE := 1\<rparr>"

definition toy_files :: filesystem where
  "toy_files = \<lparr>directories = {''results''}, files = Map.empty\<rparr>"

section \<open>Properties\<close>

subsection \<open>State normalisation\<close>

text \<open>C10. \<open>normalizeState\<close> is the identity: for every input \<open>s_t\<close>, of whatever
  type, and every agent, it returns \<open>s_t\<close> unchanged.\<close>

theorem normalizeState_identity: "normalizeState self s_t = s_t"
  by (simp add: normalizeState_def)

subsection \<open>Construction\<close>

text \<open>Construction returns an agent for every action dimension numpy holds in 64 bits,
  provided the two \<open>CriticV\<close> it builds have the same shapes.\<close>

lemma SAC_init_returns:
  "- (2 ^ 63) \<le> action_dim \<Longrightarrow> action_dim < 2 ^ 64 \<Longrightarrow>
   same_shape
     (fst (CriticV_new nn state_dim (snd (CriticV_new nn state_dim
        (snd (Actor_new nn state_dim action_dim (torch_random w)))))))
     (fst (CriticV_new nn state_dim (snd (Actor_new nn state_dim action_dim (torch_random w))))) \<Longrightarrow>
   \<exists>self w'. SAC_init c nn w action_dim state_dim = Returned self w'"
  by (simp add: SAC_init_def np_prod_item_def load_state_dict_def Let_def split_beta)

text \<open>A constructed agent: the target starts as an exact copy of the value network, the
  buffer empty with the module's batch size, the counter at zero, test mode off.\<close>

lemma SAC_init_agent:
  assumes "SAC_init c nn w action_dim state_dim = Returned self w'"
  shows "vf_target self = vf self \<and> same_shape (vf_target self) (vf self) \<and>
         actiondim self = action_dim \<and> statedim self = state_dim \<and>
         batch_size (memory self) = nat (BATCH_SIZE c) \<and> cur_size (memory self) = 0 \<and>
         log_alpha self = 0 \<and> total_step self = 0 \<and> \<not> is_test self \<and> transition self = None"
  using assms
  by (auto simp: SAC_init_def np_prod_item_def load_state_dict_def ReplayBuffer_init_def Let_def
      same_shape_def split: if_splits sum.splits prod.splits)

lemma toy_init: "\<exists>self w'. SAC_init module_constants toy_nn toy_world 3 2 = Returned self w'"
  by (rule SAC_init_returns) (simp_all add: toy_nn_def same_shape_def)

text \<open>C7. For every \<open>action_dim \<ge> 1\<close>, the target entropy of a constructed agent
  (its attribute \<open>target_alpha\<close>, set at line 35) is exactly \<open>- action_dim\<close>.\<close>

theorem target_entropy_at_construction:
  "1 \<le> action_dim \<Longrightarrow> SAC_init c nn w action_dim state_dim = Returned self w' \<Longrightarrow>
     target_alpha self = - action_dim"
  by (auto simp: SAC_init_def np_prod_item_def Let_def split: if_splits sum.splits prod.splits)

theorem target_entropy_at_construction_witness:
  "(1::int) \<le> 3 \<and>
   (case SAC_init module_constants toy_nn toy_world 3 2 of
      Returned self w' \<Rightarrow> target_alpha self = - 3
    | Raised e w' \<Rightarrow> False)"
proof -
  obtain self w' where r: "SAC_init module_constants toy_nn toy_world 3 2 = Returned self w'"
    using toy_init by blast
  have h: "(1::int) \<le> 3" by simp
  show ?thesis using h r target_entropy_at_construction [OF h r] by simp
qed

subsection \<open>Storing a transition\<close>

text \<open>C8, as amended. \<open>store_transition(state, new_state, reward, action, done)\<close> leaves
  the agent as it is in test mode. Otherwise it passes exactly one transition with those
  fields to the replay buffer's \<open>store\<close>, keeps that transition in the attribute
  \<open>transition\<close> as well, and changes nothing else.\<close>

theorem store_transition_effect:
  "store_transition self state new_state reward action done =
     (if is_test self then self
      else self\<lparr>transition :=
                   Some \<lparr>t_state = state, t_action = action, t_reward = reward,
                         t_new_state = new_state, t_done = done\<rparr>,
                 memory := store (memory self) state action reward new_state done\<rparr>)"
  by (simp add: store_transition_def Let_def)

text \<open>C8 as stated fails: outside test mode the buffer is not the only attribute that
  changes. On the small agent the result differs from the agent with only its buffer
  updated (line 76 rebinds \<open>self.transition\<close>).\<close>

theorem store_transition_counterexample:
  "\<not> is_test toy_agent \<and>
   store_transition toy_agent [1, 2] [3, 4] 1 [1 / 2] False \<noteq>
     toy_agent\<lparr>memory := store (memory toy_agent) [1, 2] [1 / 2] 1 [3, 4] False\<rparr>"
proof -
  have "transition (store_transition toy_agent [1, 2] [3, 4] 1 [1 / 2] False) \<noteq>
        transition (toy_agent\<lparr>memory := store (memory toy_agent) [1, 2] [1 / 2] 1 [3, 4] False\<rparr>)"
    by (simp add: store_transition_def toy_agent_def Let_def)
  then show ?thesis by (auto simp: toy_agent_def)
qed

subsection \<open>The target soft update\<close>

lemma soft_update_loop_spec:
  "same_shape target online \<Longrightarrow>
     soft_update_loop tau target online = Returned () (spec_soft_update tau target online)"
proof (induction target arbitrary: online)
  case Nil
  then show ?case by (cases online) (simp_all add: spec_soft_update_def)
next
  case (Cons t ts)
  then obtain l ls where o: "online = l # ls" by (cases online) (auto simp: same_shape_def)
  with Cons.prems have "length t = length l" "same_shape ts ls" by (auto simp: same_shape_def)
  with Cons.IH [of ls] o show ?case by (simp add: spec_soft_update_def blend_def)
qed

lemma soft_update_loop_raises:
  "soft_update_loop tau ts ls = Raised e s \<Longrightarrow> e = ShapeMismatch"
  by (induction tau ts ls arbitrary: s rule: soft_update_loop.induct)
     (auto split: if_splits outcome.splits)

lemma same_shape_lengths:
  "same_shape p q \<Longrightarrow> length p = length q \<and> (\<forall>i<length p. length (p ! i) = length (q ! i))"
  unfolding same_shape_def by (metis length_map nth_map)

lemma spec_soft_update_shape:
  "same_shape target online \<Longrightarrow> same_shape (spec_soft_update tau target online) target"
  by (induction target arbitrary: online; case_tac online) (auto simp: same_shape_def spec_soft_update_def)

lemma spec_soft_update_nth:
  assumes "same_shape target online" "i < length target" "j < length (target ! i)"
  shows "spec_soft_update tau target online ! i ! j = tau * online ! i ! j + (1 - tau) * target ! i ! j"
  using assms same_shape_lengths [OF assms(1)] by (simp add: spec_soft_update_def)

lemma blend_online: "length t = length l \<Longrightarrow> map (\<lambda>(te, le). (le::real)) (zip t l) = l"
  by (induction t l rule: list_induct2) simp_all

lemma blend_target: "length t = length l \<Longrightarrow> map (\<lambda>(te, le). (te::real)) (zip t l) = t"
  by (induction t l rule: list_induct2) simp_all

lemma spec_soft_update_one: "same_shape target online \<Longrightarrow> spec_soft_update 1 target online = online"
  by (induction target arbitrary: online; case_tac online)
     (auto simp: same_shape_def spec_soft_update_def blend_online)

lemma spec_soft_update_zero: "same_shape target online \<Longrightarrow> spec_soft_update 0 target online = target"
  by (induction target arbitrary: online; case_tac online)
     (auto simp: same_shape_def spec_soft_update_def blend_target)

text \<open>C6. After one target soft update every element of the target-V parameters is
  \<open>tau * online + (1 - tau) * old_target\<close>, and nothing else of the agent has changed;
  with \<open>tau = 1\<close> the target is the online parameters, with \<open>tau = 0\<close> it is unchanged.
  The value network and its target have the same shapes (both are \<open>CriticV(statedim)\<close>).\<close>

theorem target_soft_update_blend:
  assumes "same_shape (vf_target self) (vf self)"
  shows "\<exists>new. target_soft_update c self = Returned () (self\<lparr>vf_target := new\<rparr>) \<and>
           same_shape new (vf_target self) \<and>
           (\<forall>i<length new. \<forall>j<length (new ! i).
              new ! i ! j = TAU c * vf self ! i ! j + (1 - TAU c) * vf_target self ! i ! j) \<and>
           (TAU c = 1 \<longrightarrow> new = vf self) \<and>
           (TAU c = 0 \<longrightarrow> new = vf_target self)"
proof -
  let ?new = "spec_soft_update (TAU c) (vf_target self) (vf self)"
  have r: "target_soft_update c self = Returned () (self\<lparr>vf_target := ?new\<rparr>)"
    by (simp add: target_soft_update_def soft_update_loop_spec [OF assms])
  have s: "same_shape ?new (vf_target self)" by (rule spec_soft_update_shape [OF assms])
  have n: "\<forall>i<length ?new. \<forall>j<length (?new ! i).
             ?new ! i ! j = TAU c * vf self ! i ! j + (1 - TAU c) * vf_target self ! i ! j"
    using same_shape_lengths [OF s] spec_soft_update_nth [OF assms] by simp
  have o: "TAU c = 1 \<longrightarrow> ?new = vf self" using spec_soft_update_one [OF assms] by simp
  have z: "TAU c = 0 \<longrightarrow> ?new = vf_target self" using spec_soft_update_zero [OF assms] by simp
  from r s n o z show ?thesis by blast
qed

theorem target_soft_update_blend_witness:
  "same_shape (vf_target toy_agent) (vf toy_agent) \<and>
   target_soft_update module_constants toy_agent =
     Returned () (toy_agent\<lparr>vf_target := [[5 / 1000, 1995 / 1000]]\<rparr>) \<and>
   target_soft_update (module_constants\<lparr>TAU := 1\<rparr>) toy_agent =
     Returned () (toy_agent\<lparr>vf_target := vf toy_agent\<rparr>) \<and>
   target_soft_update (module_constants\<lparr>TAU := 0\<rparr>) toy_agent = Returned () toy_agent"
proof -
  have h: "same_shape (vf_target toy_agent) (vf toy_agent)"
    by (simp add: same_shape_def toy_agent_def)
  have a: "target_soft_update module_constants toy_agent =
             Returned () (toy_agent\<lparr>vf_target := [[5 / 1000, 1995 / 1000]]\<rparr>)"
    using target_soft_update_blend [OF h, of module_constants]
    by (simp add: target_soft_update_def toy_agent_def module_constants_def blend_def)
  have b: "target_soft_update (module_constants\<lparr>TAU := 1\<rparr>) toy_agent =
             Returned () (toy_agent\<lparr>vf_target := vf toy_agent\<rparr>)"
    using target_soft_update_blend [OF h, of "module_constants\<lparr>TAU := 1\<rparr>"] by auto
  have c: "target_soft_update (module_constants\<lparr>TAU := 0\<rparr>) toy_agent = Returned () toy_agent"
    using target_soft_update_blend [OF h, of "module_constants\<lparr>TAU := 0\<rparr>"] by auto
  from h a b c show ?thesis by blast
qed

subsection \<open>Action selection\<close>

lemma clip_bounds: "- 1 \<le> clip x (- 1) 1 \<and> clip x (- 1) 1 \<le> 1"
  by (simp add: clip_def)

text \<open>C4, as amended. For every state and every agent, \<open>step(state)\<close> returns a list
  that holds exactly one float vector: the actor's action for the state, clipped
  elementwise. That vector has length \<open>action_dim\<close> when the actor's action has, and
  every component of it lies in \<open>[-1, 1]\<close>. The step counter goes up by one and nothing
  else of the agent changes.\<close>

theorem step_returns_clipped_row:
  assumes "length (fst (fst (Actor_forward1 nn (actor self) (torch_random w) state))) =
             nat (actiondim self)"
  shows "\<exists>row w'. step nn w self state =
             Returned [row] (w', self\<lparr>total_step := total_step self + 1\<rparr>) \<and>
           row = map (\<lambda>x. clip x (- 1) 1)
                   (fst (fst (Actor_forward1 nn (actor self) (torch_random w) state))) \<and>
           length row = nat (actiondim self) \<and>
           (\<forall>x \<in> set row. - 1 \<le> x \<and> x \<le> 1)"
  using assms by (auto simp: step_def Let_def split_beta clip_bounds)

lemma toy_step:
  "step toy_nn toy_world toy_agent3 [0, 0] =
     Returned [[1, - 1, 1 / 2]]
       (toy_world\<lparr>torch_random := 1\<rparr>, toy_agent3\<lparr>total_step := total_step toy_agent3 + 1\<rparr>)"
  by (simp add: step_def toy_nn_def toy_world_def toy_agent3_def toy_agent_def clip_def Let_def)

theorem step_returns_clipped_row_witness:
  "length (fst (fst (Actor_forward1 toy_nn (actor toy_agent3) (torch_random toy_world) [0, 0]))) =
     nat (actiondim toy_agent3) \<and>
   step toy_nn toy_world toy_agent3 [0, 0] =
     Returned [[1, - 1, 1 / 2]]
       (toy_world\<lparr>torch_random := 1\<rparr>, toy_agent3\<lparr>total_step := total_step toy_agent3 + 1\<rparr>)"
proof -
  have h: "length (fst (fst (Actor_forward1 toy_nn (actor toy_agent3) (torch_random toy_world) [0, 0]))) =
             nat (actiondim toy_agent3)"
    by (simp add: toy_nn_def toy_agent3_def)
  show ?thesis using h step_returns_clipped_row [OF h] toy_step by simp
qed

text \<open>C4 as stated fails: what \<open>step\<close> returns is not a vector of length \<open>action_dim\<close>.
  With three action dimensions and the actor's action \<open>[2, -3, 1/2]\<close> it returns
  \<open>[[1, -1, 1/2]]\<close>, a list of length one (lines 65 to 68 wrap the action in a list
  before it is made an array).\<close>

theorem step_counterexample:
  "step toy_nn toy_world toy_agent3 [0, 0] =
     Returned [[1, - 1, 1 / 2]]
       (toy_world\<lparr>torch_random := 1\<rparr>, toy_agent3\<lparr>total_step := total_step toy_agent3 + 1\<rparr>) \<and>
   length [[1, - 1, 1 / 2 :: real]] \<noteq> nat (actiondim toy_agent3)"
  using toy_step by (simp add: toy_agent3_def)

subsection \<open>Saving and loading\<close>

lemma dirname_results [simp]:
  "dirname ''results/actor.pt'' = ''results''" "dirname ''results/qf1.pt'' = ''results''"
  "dirname ''results/qf2.pt'' = ''results''" "dirname ''results/vf.pt'' = ''results''"
  by (simp_all add: dirname_def)

text \<open>\<open>save_models\<close> returns exactly when the directory \<open>results\<close> exists, and then the
  four files hold the four parameter sets.\<close>

lemma save_models_returns:
  "save_models self fs =
     (if ''results'' \<in> directories fs then
        Returned ()
          (fs\<lparr>files := (files fs)(''results/actor.pt'' \<mapsto> actor self, ''results/qf1.pt'' \<mapsto> qf1 self,
                                ''results/qf2.pt'' \<mapsto> qf2 self, ''results/vf.pt'' \<mapsto> vf self)\<rparr>)
      else Raised NoSuchDirectory fs)"
  by (simp add: save_models_def torch_save_def)

text \<open>C9. After \<open>save_models()\<close> on an agent, \<open>load_models()\<close> on an agent whose four
  persisted networks have the same shapes (a freshly constructed agent of the same state
  and action dimensions) returns, and leaves that agent with the saved parameters of
  \<open>actor\<close>, \<open>qf1\<close>, \<open>qf2\<close> and \<open>vf\<close>, everything else as it was.\<close>

theorem save_then_load:
  assumes saved: "save_models src fs = Returned () fs'"
    and shapes: "same_shape (actor dst) (actor src)" "same_shape (qf1 dst) (qf1 src)"
      "same_shape (qf2 dst) (qf2 src)" "same_shape (vf dst) (vf src)"
  shows "load_models dst fs' =
           Returned () (dst\<lparr>actor := actor src, qf1 := qf1 src, qf2 := qf2 src, vf := vf src\<rparr>)"
proof -
  from saved have fs': "fs' = fs\<lparr>files := (files fs)(''results/actor.pt'' \<mapsto> actor src,
      ''results/qf1.pt'' \<mapsto> qf1 src, ''results/qf2.pt'' \<mapsto> qf2 src, ''results/vf.pt'' \<mapsto> vf src)\<rparr>"
    by (simp add: save_models_returns split: if_splits)
  show ?thesis using shapes
    by (simp add: fs' load_models_def load_into_def torch_load_def load_state_dict_def)
qed

theorem save_then_load_witness:
  "save_models toy_agent toy_files =
     Returned () (toy_files\<lparr>files := [''results/actor.pt'' \<mapsto> [[2]],
        ''results/qf1.pt'' \<mapsto> [[1, 1, 1]], ''results/qf2.pt'' \<mapsto> [[1, 0, 1]],
        ''results/vf.pt'' \<mapsto> [[1, 1]]]\<rparr>) \<and>
   same_shape (actor toy_fresh) (actor toy_agent) \<and> same_shape (qf1 toy_fresh) (qf1 toy_agent) \<and>
   same_shape (qf2 toy_fresh) (qf2 toy_agent) \<and> same_shape (vf toy_fresh) (vf toy_agent) \<and>
   load_models toy_fresh
     (toy_files\<lparr>files := [''results/actor.pt'' \<mapsto> [[2]],
        ''results/qf1.pt'' \<mapsto> [[1, 1, 1]], ''results/qf2.pt'' \<mapsto> [[1, 0, 1]],
        ''results/vf.pt'' \<mapsto> [[1, 1]]]\<rparr>) =
     Returned () (toy_fresh\<lparr>actor := [[2]], qf1 := [[1, 1, 1]], qf2 := [[1, 0, 1]], vf := [[1, 1]]\<rparr>)"
proof -
  have s: "save_models toy_agent toy_files =
     Returned () (toy_files\<lparr>files := [''results/actor.pt'' \<mapsto> [[2]],
        ''results/qf1.pt'' \<mapsto> [[1, 1, 1]], ''results/qf2.pt'' \<mapsto> [[1, 0, 1]],
        ''results/vf.pt'' \<mapsto> [[1, 1]]]\<rparr>)"
    by (simp add: save_models_returns toy_files_def toy_agent_def)
  have h: "same_shape (actor toy_fresh) (actor toy_agent)" "same_shape (qf1 toy_fresh) (qf1 toy_agent)"
    "same_shape (qf2 toy_fresh) (qf2 toy_agent)" "same_shape (vf toy_fresh) (vf toy_agent)"
    by (simp_all add: same_shape_def toy_fresh_def toy_agent_def)
  have v: "actor toy_agent = [[2]]" "qf1 toy_agent = [[1, 1, 1]]" "qf2 toy_agent = [[1, 0, 1]]"
    "vf toy_agent = [[1, 1]]"
    by (simp_all add: toy_agent_def)
  show ?thesis using s h save_then_load [OF s h] by (simp add: v)
qed

subsection \<open>The update step\<close>

text \<open>Reshaping, sampling and the loss arithmetic.\<close>

lemma rows_of_concat:
  "0 < k \<Longrightarrow> list_all (\<lambda>row. length row = k) m \<Longrightarrow> rows_of k (concat m) = m"
proof (induction m)
  case Nil
  then show ?case by (simp add: rows_of.simps)
next
  case (Cons row m)
  then have "row \<noteq> []" by auto
  with Cons show ?case by (subst rows_of.simps) simp
qed

lemma length_concat_rows:
  "list_all (\<lambda>row. length row = k) m \<Longrightarrow> length (concat m) = length m * k"
  by (induction m) simp_all

lemma reshape_rows_same:
  "1 \<le> k \<Longrightarrow> list_all (\<lambda>row. length row = nat k) m \<Longrightarrow> reshape_rows k m = Inr m"
  by (simp add: reshape_rows_def rows_of_concat length_concat_rows)

lemma draw_indices_bound:
  "k \<le> n \<Longrightarrow> list_all (\<lambda>i. i < n) (fst (draw_indices r n k))"
  by (cases "n = 0") (simp_all add: draw_indices_def list_all_iff)

text \<open>On an agent that is ready, \<open>update_model\<close> samples a batch and runs the update
  on its tensors: neither \<open>sample_batch\<close> nor the reshape of line 89 raises, and the
  reshape leaves the stored actions as they are.\<close>

lemma sample_batch_ready:
  "batch_size b \<le> cur_size b \<Longrightarrow>
     sample_batch b r =
       Returned (gather b (fst (draw_indices r (cur_size b) (batch_size b))))
         (snd (draw_indices r (cur_size b) (batch_size b)))"
  by (simp add: sample_batch_def split_beta)

lemma update_model_ready:
  assumes "update_ready c self"
  shows "update_model c nn w self =
           (let d = draw_indices (np_random w) (cur_size (memory self)) (batch_size (memory self));
                smp = gather (memory self) (fst d)
            in update_on_batch c nn (w\<lparr>np_random := snd d\<rparr>) self
                 (k_obs smp) (k_next_obs smp) (k_acts smp) (k_rews smp) (k_done smp))"
proof -
  let ?b = "memory self"
  let ?d = "draw_indices (np_random w) (cur_size ?b) (batch_size ?b)"
  from assms have le: "batch_size ?b \<le> cur_size ?b" and k: "1 \<le> actiondim self"
    and rows: "list_all (\<lambda>i. length (acts_buf ?b i) = nat (actiondim self)) [0..<cur_size ?b]"
    by (simp_all add: update_ready_def)
  have "list_all (\<lambda>row. length row = nat (actiondim self)) (k_acts (gather ?b (fst ?d)))"
    using draw_indices_bound [OF le, of "np_random w"] rows by (auto simp: gather_def list_all_iff)
  then have "reshape_rows (actiondim self) (k_acts (gather ?b (fst ?d))) = Inr (k_acts (gather ?b (fst ?d)))"
    by (rule reshape_rows_same [OF k])
  then show ?thesis by (simp add: update_model_def sample_batch_ready [OF le] Let_def)
qed

text \<open>The tensor expressions of the source, operation by operation, are the formulas
  of the spec, row by row. \<open>F.mse_loss\<close> is handed the target first at lines 107 and
  108; the squared error does not see the order.\<close>

lemma mse_loss_spec: "mse_loss tgt pred = spec_mse pred tgt"
proof -
  have "map2 (\<lambda>x y. (x - y)\<^sup>2) tgt pred = map (\<lambda>(p, t). (p - t)\<^sup>2) (zip pred tgt)"
    by (induction tgt arbitrary: pred; case_tac pred) (simp_all add: power2_commute)
  then show ?thesis by (simp add: mse_loss_def spec_mse_def)
qed

lemma spec_mse_commute: "spec_mse a b = spec_mse b a"
proof -
  have "map (\<lambda>(p, t). (p - t)\<^sup>2) (zip a b) = map (\<lambda>(p, t). (p - t)\<^sup>2) (zip b a)"
    by (induction a arbitrary: b; case_tac b) (simp_all add: power2_commute)
  then show ?thesis by (simp add: spec_mse_def)
qed

lemma q_target_spec:
  "map2 (+) reward (map2 (*) (map (\<lambda>v. gamma * v) vt) (map (\<lambda>d. 1 - d) done)) =
     spec_q_target gamma reward vt done"
  unfolding spec_q_target_def
proof (induction reward arbitrary: vt "done")
  case Nil
  then show ?case by simp
next
  case (Cons r rs)
  then show ?case by (cases vt; cases "done") simp_all
qed

lemma q_pred_spec: "map2 min a b = spec_q_pred a b"
  by (simp add: spec_q_pred_def)

lemma v_target_spec: "map2 (-) q (map (\<lambda>lp. alpha * lp) lp) = spec_v_target q alpha lp"
  unfolding spec_v_target_def
  by (induction q arbitrary: lp; case_tac lp) simp_all

lemma actor_loss_spec:
  "mean (map2 (-) (map (\<lambda>lp. alpha * lp) lp) (map2 (-) q v)) = spec_actor_loss alpha lp q v"
proof -
  have "map2 (-) (map (\<lambda>lp. alpha * lp) lp) (map2 (-) q v) =
          map (\<lambda>(lp, q, v). alpha * lp - (q - v)) (zip lp (zip q v))"
  proof (induction lp arbitrary: q v)
    case Nil
    then show ?case by simp
  next
    case (Cons a lp)
    then show ?case by (cases q; cases v) simp_all
  qed
  then show ?thesis by (simp add: spec_actor_loss_def)
qed

text \<open>What unfolds one call of \<open>update_model\<close> on a ready agent.\<close>

lemmas update_unfold =
  update_on_batch_def Let_def split_beta target_soft_update_def soft_update_loop_spec
  mse_loss_spec spec_mse_commute q_target_spec q_pred_spec v_target_spec actor_loss_spec
  spec_alpha_loss_def

text \<open>C1. In \<open>update_model\<close>, on a ready agent, the Q-critic target is
  \<open>reward + gamma * TargetV(next_state) * (1 - done)\<close>, row by row, computed from the
  target network as it is when the call starts and a constant of both losses (detached).
  \<open>qf1_loss\<close> and \<open>qf2_loss\<close> are the mean squared errors between each critic's
  prediction on the stored (state, action) pairs of the sampled batch and this one
  target: their sum is the \<open>qf_loss\<close> returned, and each critic's parameters after the
  call are its optimizer's step on its own loss.\<close>

theorem q_critic_losses:
  assumes "update_ready c self"
  shows "\<exists>smp r actor_loss qf_loss v_loss alpha_loss w' self'.
     sample_batch (memory self) (np_random w) = Returned smp r \<and>
     update_model c nn w self = Returned (actor_loss, qf_loss, v_loss, alpha_loss) (w', self') \<and>
     (let q_target = spec_q_target (GAMMMA c) (k_rews smp)
                       (CriticV_forward nn (vf_target self) (k_next_obs smp)) (k_done smp);
          qf_loss_fn = (\<lambda>p. spec_mse (CriticQ_forward nn p (k_obs smp) (k_acts smp)) q_target)
      in qf_loss = qf_loss_fn (qf1 self) + qf_loss_fn (qf2 self) \<and>
         (qf1 self', qf1_optimizer self') = Adam_step nn (qf1_optimizer self) qf_loss_fn (qf1 self) \<and>
         (qf2 self', qf2_optimizer self') = Adam_step nn (qf2_optimizer self) qf_loss_fn (qf2 self))"
proof -
  from assms have f: "POLICY_UPDATE_FREQUENCE c \<noteq> 0" and sh: "same_shape (vf_target self) (vf self)"
    and le: "batch_size (memory self) \<le> cur_size (memory self)"
    by (simp_all add: update_ready_def)
  show ?thesis using f sh
    by (simp add: sample_batch_ready [OF le] update_model_ready [OF assms] update_unfold)
qed

text \<open>C2. In every \<open>update_model\<close> call on a ready agent:
  \<^item> the entropy-temperature loss returned is
    \<open>mean(-exp(log_alpha) * (log_prob + target_entropy))\<close>, with \<open>log_prob\<close> a constant
    of the loss (detached), and \<open>log_alpha\<close> after the call is the step of its optimizer
    on this loss;
  \<^item> \<open>alpha = exp(log_alpha)\<close> of the stepped \<open>log_alpha\<close> is what the V-target
    \<open>q_pred - alpha * log_prob\<close> and the actor loss of the same call use;
  \<^item> the step touches only \<open>log_alpha\<close> (and its optimizer): the call with a step that does
    nothing, started from the agent with \<open>log_alpha\<close> already stepped, ends in the same
    agent with the same three other losses;
  \<^item> the Q-target does not depend on alpha: whatever the step on \<open>log_alpha\<close> does, the
    Q-loss and both Q-critics after the call are the same.\<close>

theorem entropy_temperature_update:
  assumes "update_ready c self"
  shows "\<exists>smp r actor_loss qf_loss v_loss alpha_loss w' self'.
     sample_batch (memory self) (np_random w) = Returned smp r \<and>
     update_model c nn w self = Returned (actor_loss, qf_loss, v_loss, alpha_loss) (w', self') \<and>
     (let state = k_obs smp;
          new_action = fst (fst (Actor_forward nn (actor self) (torch_random w) state));
          log_prob = snd (fst (Actor_forward nn (actor self) (torch_random w) state));
          alpha_loss_fn = (\<lambda>la. spec_alpha_loss la (of_int (target_alpha self)) log_prob);
          alpha = exp (log_alpha self');
          q_pred = spec_q_pred (CriticQ_forward nn (qf1 self) state new_action)
                               (CriticQ_forward nn (qf2 self) state new_action);
          v_pred = CriticV_forward nn (vf self) state;
          v_target = spec_v_target q_pred alpha log_prob;
          v_loss_fn = (\<lambda>p. spec_mse (CriticV_forward nn p state) v_target)
      in alpha_loss = alpha_loss_fn (log_alpha self) \<and>
         (log_alpha self', alpha_optimizer self') =
            Adam_step1 nn (alpha_optimizer self) alpha_loss_fn (log_alpha self) \<and>
         v_loss = v_loss_fn (vf self) \<and>
         (vf self', vf_optimizer self') = Adam_step nn (vf_optimizer self) v_loss_fn (vf self) \<and>
         (total_step self mod POLICY_UPDATE_FREQUENCE c = 0 \<longrightarrow>
            actor_loss = spec_actor_loss alpha log_prob q_pred v_pred) \<and>
         (\<exists>l1. update_model c (nn\<lparr>Adam_step1 := (\<lambda>opt loss la. (la, opt))\<rparr>) w
                  (self\<lparr>log_alpha := log_alpha self', alpha_optimizer := alpha_optimizer self'\<rparr>) =
                Returned (actor_loss, qf_loss, v_loss, l1) (w', self')) \<and>
         (\<forall>other_step. \<exists>l2 w2 self2.
            update_model c (nn\<lparr>Adam_step1 := other_step\<rparr>) w self = Returned l2 (w2, self2) \<and>
            fst (snd l2) = qf_loss \<and> qf1 self2 = qf1 self' \<and> qf2 self2 = qf2 self'))"
proof -
  from assms have f: "POLICY_UPDATE_FREQUENCE c \<noteq> 0" and sh: "same_shape (vf_target self) (vf self)"
    and le: "batch_size (memory self) \<le> cur_size (memory self)"
    by (simp_all add: update_ready_def)
  have ready: "update_ready c (self\<lparr>log_alpha := la, alpha_optimizer := ao\<rparr>)" for la ao
    using assms by (simp add: update_ready_def)
  show ?thesis using f sh
    by (simp add: sample_batch_ready [OF le] update_model_ready [OF assms] update_model_ready [OF ready]
        update_unfold)
qed

text \<open>C3. In \<open>update_model\<close> on a ready agent, when the step counter is a multiple of
  \<open>POLICY_UPDATE_FREQUENCE\<close> the actor loss returned is
  \<open>mean(alpha * log_prob - (q_pred - V(state)))\<close>, with \<open>q_pred\<close> the elementwise minimum
  of the two Q-critics on the resampled action and \<open>V(state)\<close> a constant of the loss,
  the actor's parameters after the call are its optimizer's step on this loss, and the
  target-V parameters are what the soft update makes of them and the value network as
  it is before its own step. On every other call the actor loss returned is zero, and
  the actor, its optimizer and the target-V parameters are unchanged.\<close>

theorem policy_update_cadence:
  assumes "update_ready c self"
  shows "\<exists>smp r actor_loss qf_loss v_loss alpha_loss w' self'.
     sample_batch (memory self) (np_random w) = Returned smp r \<and>
     update_model c nn w self = Returned (actor_loss, qf_loss, v_loss, alpha_loss) (w', self') \<and>
     (let state = k_obs smp;
          alpha = exp (log_alpha self');
          policy = (\<lambda>p. fst (Actor_forward nn p (torch_random w) state));
          q_pred = (\<lambda>new_action. spec_q_pred (CriticQ_forward nn (qf1 self) state new_action)
                                             (CriticQ_forward nn (qf2 self) state new_action));
          actor_loss_fn = (\<lambda>p. spec_actor_loss alpha (snd (policy p)) (q_pred (fst (policy p)))
                                   (CriticV_forward nn (vf self) state))
      in if total_step self mod POLICY_UPDATE_FREQUENCE c = 0
         then actor_loss = actor_loss_fn (actor self) \<and>
              (actor self', actor_optimizer self') =
                 Adam_step nn (actor_optimizer self) actor_loss_fn (actor self) \<and>
              Returned () (vf_target self') = soft_update_loop (TAU c) (vf_target self) (vf self)
         else actor_loss = 0 \<and> actor self' = actor self \<and>
              actor_optimizer self' = actor_optimizer self \<and> vf_target self' = vf_target self)"
proof -
  from assms have f: "POLICY_UPDATE_FREQUENCE c \<noteq> 0" and sh: "same_shape (vf_target self) (vf self)"
    and le: "batch_size (memory self) \<le> cur_size (memory self)"
    by (simp_all add: update_ready_def)
  show ?thesis using f sh
    by (simp add: sample_batch_ready [OF le] update_model_ready [OF assms] update_unfold)
qed

subsection \<open>Training\<close>

text \<open>An update that returns has drawn its batch: numpy's generator has moved on by the
  batch size.\<close>

lemma update_on_batch_np_random:
  "update_on_batch c nn w self state next_state action reward done = Returned l (w', self') \<Longrightarrow>
     np_random w' = np_random w"
  by (auto simp: update_on_batch_def Let_def split_beta split: if_splits outcome.splits)

lemma update_model_advances:
  assumes "update_model c nn w self = Returned l (w', self')"
  shows "rng_pos (np_random w') = rng_pos (np_random w) + batch_size (memory self)"
proof -
  from assms obtain smp r where s: "sample_batch (memory self) (np_random w) = Returned smp r"
    by (auto simp: update_model_def split: outcome.splits)
  then have r: "rng_pos r = rng_pos (np_random w) + batch_size (memory self)"
    by (auto simp: sample_batch_def draw_indices_def split: if_splits)
  from assms s obtain a where "update_on_batch c nn (w\<lparr>np_random := r\<rparr>) self (k_obs smp) (k_next_obs smp)
       a (k_rews smp) (k_done smp) = Returned l (w', self')"
    by (auto simp: update_model_def Let_def split: sum.splits)
  from update_on_batch_np_random [OF this] r show ?thesis by simp
qed

text \<open>The guard of \<open>train\<close> is enough for the sampling: with the buffer's batch size
  the module's, as construction leaves it, \<open>train\<close> never raises
  \<open>InsufficientDataError\<close>.\<close>

lemma update_on_batch_raises:
  "update_on_batch c nn w self state next_state action reward done = Raised e s \<Longrightarrow>
     e = ZeroDivisionError \<or> e = ShapeMismatch"
  by (auto simp: update_on_batch_def Let_def split_beta target_soft_update_def
      split: if_splits outcome.splits dest: soft_update_loop_raises)

lemma train_guards_sampling:
  assumes "batch_size (memory self) = nat (BATCH_SIZE c)"
  shows "train c nn w self \<noteq> Raised InsufficientDataError s"
proof
  assume r: "train c nn w self = Raised InsufficientDataError s"
  then have g: "len (memory self) > BATCH_SIZE c"
    and u: "update_model c nn w self = Raised InsufficientDataError s"
    by (auto simp: train_def split: if_splits outcome.splits)
  from g assms have "\<not> cur_size (memory self) < batch_size (memory self)"
    by (simp add: len_def)
  with u show False
    by (auto simp: update_model_def sample_batch_def reshape_rows_def Let_def split_beta
        split: if_splits sum.splits dest: update_on_batch_raises)
qed

text \<open>C5. \<open>train()\<close> performs an update, which starts by calling \<open>sample_batch\<close>,
  exactly when the replay buffer holds strictly more than \<open>BATCH_SIZE\<close> transitions and
  the step counter strictly exceeds \<open>INITIAL_RANDOM_STEPS\<close>: then its outcome is that of
  \<open>update_model\<close> with the losses dropped, which is never the state it started from
  (the buffer samples at least one transition). Otherwise it returns and leaves the
  agent, buffer and step counter included, and both generators as they were.\<close>

theorem train_guard:
  "(len (memory self) > BATCH_SIZE c \<and> total_step self > INITIAL_RANDOM_STEPS c \<longrightarrow>
      train c nn w self =
        (case update_model c nn w self of
           Returned l s \<Rightarrow> Returned () s
         | Raised e s \<Rightarrow> Raised e s) \<and>
      (0 < batch_size (memory self) \<longrightarrow> train c nn w self \<noteq> Returned () (w, self))) \<and>
   (\<not> (len (memory self) > BATCH_SIZE c \<and> total_step self > INITIAL_RANDOM_STEPS c) \<longrightarrow>
      train c nn w self = Returned () (w, self))"
proof -
  have "update_model c nn w self \<noteq> Returned l (w, self)" if "0 < batch_size (memory self)" for l
    using update_model_advances [of c nn w self l w self] that by auto
  then show ?thesis by (auto simp: train_def split: outcome.splits)
qed

text \<open>The small agent is ready, and its batch is the first stored transition.\<close>

lemma toy_ready: "update_ready toy_constants toy_agent"
  by (simp add: update_ready_def toy_constants_def module_constants_def toy_agent_def toy_memory_def
      store_def ReplayBuffer_init_def same_shape_def upt_conv_Cons)

lemma toy_sample:
  "sample_batch (memory toy_agent) (np_random toy_world) =
     Returned \<lparr>k_obs = [[1, 2]], k_next_obs = [[3, 4]], k_acts = [[1 / 2]], k_rews = [1], k_done = [0]\<rparr>
       \<lparr>rng_seq = (\<lambda>n. n), rng_pos = 1\<rparr>"
  by (simp add: sample_batch_def draw_indices_def gather_def toy_agent_def toy_memory_def
      store_def ReplayBuffer_init_def toy_world_def)

theorem q_critic_losses_witness:
  "update_ready toy_constants toy_agent \<and>
   (\<exists>l s. update_model toy_constants toy_nn toy_world toy_agent = Returned l s \<and>
      fst (snd l) = 635681 / 20000)"
proof -
  from q_critic_losses [OF toy_ready, of toy_world toy_nn]
  obtain smp r al ql vl ll w' s' where
    a: "sample_batch (memory toy_agent) (np_random toy_world) = Returned smp r"
    and b: "update_model toy_constants toy_nn toy_world toy_agent = Returned (al, ql, vl, ll) (w', s')"
    and c: "ql = spec_mse (CriticQ_forward toy_nn (qf1 toy_agent) (k_obs smp) (k_acts smp))
                   (spec_q_target (GAMMMA toy_constants) (k_rews smp)
                      (CriticV_forward toy_nn (vf_target toy_agent) (k_next_obs smp)) (k_done smp)) +
                 spec_mse (CriticQ_forward toy_nn (qf2 toy_agent) (k_obs smp) (k_acts smp))
                   (spec_q_target (GAMMMA toy_constants) (k_rews smp)
                      (CriticV_forward toy_nn (vf_target toy_agent) (k_next_obs smp)) (k_done smp))"
    unfolding Let_def by blast
  from a have e: "smp = \<lparr>k_obs = [[1, 2]], k_next_obs = [[3, 4]], k_acts = [[1 / 2]], k_rews = [1], k_done = [0]\<rparr>"
    by (simp add: toy_sample)
  have "ql = 635681 / 20000"
    unfolding c e
    by (simp add: toy_nn_def toy_agent_def toy_constants_def module_constants_def
        spec_mse_def spec_q_target_def mean_def power2_eq_square)
  with b toy_ready show ?thesis by simp
qed

theorem entropy_temperature_update_witness:
  "update_ready toy_constants toy_agent \<and>
   (\<exists>l s. update_model toy_constants toy_nn toy_world toy_agent = Returned l s \<and>
      snd (snd (snd l)) = 1 \<and> log_alpha (snd s) = - 1 \<and> alpha_optimizer (snd s) = 1)"
proof -
  from entropy_temperature_update [OF toy_ready, of toy_world toy_nn]
  obtain smp r al ql vl ll w' s' where
    a: "sample_batch (memory toy_agent) (np_random toy_world) = Returned smp r"
    and b: "update_model toy_constants toy_nn toy_world toy_agent = Returned (al, ql, vl, ll) (w', s')"
    and c: "ll = spec_alpha_loss (log_alpha toy_agent) (of_int (target_alpha toy_agent))
                   (snd (fst (Actor_forward toy_nn (actor toy_agent) (torch_random toy_world) (k_obs smp))))"
    and d: "(log_alpha s', alpha_optimizer s') =
              Adam_step1 toy_nn (alpha_optimizer toy_agent)
                (\<lambda>la. spec_alpha_loss la (of_int (target_alpha toy_agent))
                   (snd (fst (Actor_forward toy_nn (actor toy_agent) (torch_random toy_world) (k_obs smp)))))
                (log_alpha toy_agent)"
    unfolding Let_def by blast
  from a have e: "smp = \<lparr>k_obs = [[1, 2]], k_next_obs = [[3, 4]], k_acts = [[1 / 2]], k_rews = [1], k_done = [0]\<rparr>"
    by (simp add: toy_sample)
  have l: "ll = 1"
    unfolding c e by (simp add: toy_nn_def toy_agent_def toy_world_def spec_alpha_loss_def mean_def)
  have "(log_alpha s', alpha_optimizer s') = (- 1, 1)"
    unfolding d e by (simp add: toy_nn_def toy_agent_def toy_world_def spec_alpha_loss_def mean_def)
  with b l toy_ready show ?thesis by simp
qed

text \<open>With the cadence at two, the small agent (one step taken) is between updates.\<close>

lemma toy_ready2: "update_ready (toy_constants\<lparr>POLICY_UPDATE_FREQUENCE := 2\<rparr>) toy_agent"
  using toy_ready by (simp add: update_ready_def)

theorem policy_update_cadence_witness:
  "update_ready toy_constants toy_agent \<and>
   (\<exists>l s. update_model toy_constants toy_nn toy_world toy_agent = Returned l s \<and>
      vf_target (snd s) = [[5 / 1000, 1995 / 1000]]) \<and>
   update_ready (toy_constants\<lparr>POLICY_UPDATE_FREQUENCE := 2\<rparr>) toy_agent \<and>
   (\<exists>l s. update_model (toy_constants\<lparr>POLICY_UPDATE_FREQUENCE := 2\<rparr>) toy_nn toy_world toy_agent =
            Returned l s \<and>
      fst l = 0 \<and> actor (snd s) = actor toy_agent \<and> vf_target (snd s) = vf_target toy_agent)"
proof -
  have m1: "total_step toy_agent mod POLICY_UPDATE_FREQUENCE toy_constants = 0"
    by (simp add: toy_agent_def toy_constants_def module_constants_def)
  have m2: "total_step toy_agent mod POLICY_UPDATE_FREQUENCE (toy_constants\<lparr>POLICY_UPDATE_FREQUENCE := 2\<rparr>) \<noteq> 0"
    by (simp add: toy_agent_def)
  from policy_update_cadence [OF toy_ready, of toy_world toy_nn] m1
  obtain l s where
    b: "update_model toy_constants toy_nn toy_world toy_agent = Returned l s"
    and c: "Returned () (vf_target (snd s)) =
              soft_update_loop (TAU toy_constants) (vf_target toy_agent) (vf toy_agent)"
    unfolding Let_def by fastforce
  from c have v: "vf_target (snd s) = [[5 / 1000, 1995 / 1000]]"
    by (simp add: toy_agent_def toy_constants_def module_constants_def blend_def)
  from policy_update_cadence [OF toy_ready2, of toy_world toy_nn] m2
  obtain l2 s2 where
    b2: "update_model (toy_constants\<lparr>POLICY_UPDATE_FREQUENCE := 2\<rparr>) toy_nn toy_world toy_agent =
           Returned l2 s2"
    and c2: "fst l2 = 0" "actor (snd s2) = actor toy_agent" "vf_target (snd s2) = vf_target toy_agent"
    unfolding Let_def by fastforce
  from toy_ready toy_ready2 b v b2 c2 show ?thesis by blast
qed

theorem train_guard_witness:
  "(len (memory toy_agent) > BATCH_SIZE toy_constants \<and>
    total_step toy_agent > INITIAL_RANDOM_STEPS toy_constants) \<and>
   0 < batch_size (memory toy_agent) \<and>
   train toy_constants toy_nn toy_world toy_agent \<noteq> Returned () (toy_world, toy_agent) \<and>
   \<not> (len (memory toy_agent) > BATCH_SIZE module_constants \<and>
      total_step toy_agent > INITIAL_RANDOM_STEPS module_constants) \<and>
   train module_constants toy_nn toy_world toy_agent = Returned () (toy_world, toy_agent)"
proof -
  have a: "len (memory toy_agent) > BATCH_SIZE toy_constants \<and>
           total_step toy_agent > INITIAL_RANDOM_STEPS toy_constants"
    and b: "0 < batch_size (memory toy_agent)"
    and c: "\<not> (len (memory toy_agent) > BATCH_SIZE module_constants \<and>
              total_step toy_agent > INITIAL_RANDOM_STEPS module_constants)"
    by (simp_all add: len_def toy_agent_def toy_memory_def store_def ReplayBuffer_init_def
        toy_constants_def module_constants_def)
  from a b c train_guard [where self = toy_agent and c = toy_constants and nn = toy_nn and w = toy_world]
    train_guard [where self = toy_agent and c = module_constants and nn = toy_nn and w = toy_world]
  show ?thesis by blast
qed

end
